theory Spec2Isabelle
  imports Complex_Main "HOL-Library.Multiset"
begin

section \<open>Data model\<close>

text \<open>
  The application keeps one game document per room code and one player document per
  (room code, user id) in Firestore. Components receive the game document as the prop
  \<open>lobbyState\<close> and the player documents as the prop \<open>players\<close> (each with its
  document id). JavaScript numbers are modelled as exact rationals, timestamps
  (\<open>Date.now()\<close>) as integers of milliseconds, \<open>null\<close> and \<open>undefined\<close> as
  \<open>None\<close>. Writes to the store are taken to succeed; the \<open>catch\<close> branches, which
  only log, are not modelled. The props of a component are taken to be the current
  content of the store. The documents are created in \<open>handleCreateGame\<close> and
  \<open>handleJoinGame\<close> of \<open>TriviaGame.jsx\<close>; question objects in \<open>parseCSV\<close>
  (numeric ids) and in \<open>generateQuestions\<close> (string ids). \<open>hostState\<close> is the local
  state of the host game screen (\<open>showAnswers\<close>, \<open>isScoring\<close>) together with that of
  its scoring hook (\<open>lastRunQuestionId\<close>; the hook's \<open>scoring\<close> flag, which an effect
  copies into \<open>isScoring\<close>, is false again when a run ends) and the pending timeout of
  its reveal effect (\<open>timer\<close>: the time at which the timeout that has been set and not
  cleared fires, if there is one).
\<close>

datatype status = LOBBY | UPLOAD | PLAYING | SCORING | RESULTS

datatype qid = NumId nat | StrId string

record questionObj =
  qid :: qid
  question :: string
  correctAnswer :: string
  options :: "string list"

record gameDoc =
  gameCode :: string
  hostUserId :: string
  status :: status
  questions :: "questionObj list"
  currentQuestionIndex :: int
  currentQuestionStartTime :: "int option"

record playerDoc =
  name :: string
  score :: int
  isHost :: bool
  lastAnswer :: "string option"
  answerTimestamp :: "int option"
  timestamp :: int

type_synonym playerList = "(string \<times> playerDoc) list"

record session =
  lobbyState :: gameDoc
  players :: playerList

record store =
  games :: "string \<rightharpoonup> gameDoc"
  playerDocs :: "string \<Rightarrow> playerList"

record hostState =
  showAnswers :: bool
  isScoring :: bool
  lastRunQuestionId :: "qid option"
  timer :: "int option"

datatype error =
    NotReady
  | GameNotFound
  | GameInProgress
  | NotOnScreen
  | ButtonDisabled
  | NotHost
  | NoQuestions
  | NoPlayer
  | AlreadyAnswered

datatype screen = LobbyScreen | HostGameScreen | PlayerGameScreen | ResultsScreen

text \<open>The state left by a handler: an early \<open>return\<close> writes nothing.\<close>

definition stateAfter :: "'a \<Rightarrow> error + 'a \<Rightarrow> 'a" where
  "stateAfter s r = (case r of Inl e \<Rightarrow> s | Inr s' \<Rightarrow> s')"

text \<open>JavaScript truthiness of a nullable string: \<open>null\<close> and the empty string are falsy.\<close>

definition truthy :: "string option \<Rightarrow> bool" where
  "truthy v = (case v of None \<Rightarrow> False | Some s \<Rightarrow> s \<noteq> [])"

subsection \<open>Firestore documents of one collection\<close>

fun setDoc :: "'k \<Rightarrow> 'v \<Rightarrow> ('k \<times> 'v) list \<Rightarrow> ('k \<times> 'v) list" where
  "setDoc k v [] = [(k, v)]"
| "setDoc k v ((k', v') # ds) = (if k' = k then (k, v) # ds else (k', v') # setDoc k v ds)"

definition updateDoc :: "'k \<Rightarrow> ('v \<Rightarrow> 'v) \<Rightarrow> ('k \<times> 'v) list \<Rightarrow> ('k \<times> 'v) list" where
  "updateDoc k f ds = map (\<lambda>(k', v). if k' = k then (k', f v) else (k', v)) ds"

definition updateAll :: "('v \<Rightarrow> 'v) \<Rightarrow> ('k \<times> 'v) list \<Rightarrow> ('k \<times> 'v) list" where
  \<comment> \<open>\<open>playerDocs.docs.map(docSnap => updateDoc(docSnap.ref, ...))\<close>\<close>
  "updateAll f ds = map (\<lambda>(k, v). (k, f v)) ds"

section \<open>Scoring service\<close>

text \<open>
  \<open>scoringService\<close> (\<open>src/unnamed/part_003\<close>, lines 113 to 129). The argument of
  \<open>calculateScore\<close> is \<open>None\<close> when the JavaScript value is not of type number.
\<close>

definition MAX_SCORE :: int where
  "MAX_SCORE = 1000"

definition MIN_SCORE :: int where
  "MIN_SCORE = 500"

definition QUESTION_DURATION_SECONDS :: int where
  "QUESTION_DURATION_SECONDS = 30"

definition Math_round :: "rat \<Rightarrow> int" where
  \<comment> \<open>\<open>Math.round\<close>: nearest integer, a half goes up\<close>
  "Math_round x = \<lfloor>x + 1 / 2\<rfloor>"

definition calculateScore :: "rat option \<Rightarrow> int" where
  "calculateScore responseTimeMs =
     (case responseTimeMs of
        None \<Rightarrow> MIN_SCORE
      | Some ms \<Rightarrow>
          if ms < 0 then MIN_SCORE
          else
            let seconds = ms / 1000;
                timeRatio = min (seconds / of_int QUESTION_DURATION_SECONDS) 1;
                raw = Math_round (of_int MAX_SCORE - of_int (MAX_SCORE - MIN_SCORE) * timeRatio)
            in max MIN_SCORE raw)"

section \<open>The scoring hook \<open>useScoring\<close>\<close>

text \<open>
  \<open>useScoring\<close> (\<open>src/unnamed/part_003\<close>, lines 11 to 48): \<open>useScoring_run\<close> is
  one execution of the function \<open>run\<close> of its effect, on a session with a database and
  a game code. Document ids are unique in a collection, so the updates of one run are
  the map of \<open>scorePlayer\<close> over the player documents.
\<close>

definition currentQuestion :: "gameDoc \<Rightarrow> questionObj option" where
  \<comment> \<open>\<open>lobbyState.questions[lobbyState.currentQuestionIndex]\<close>, undefined out of range\<close>
  "currentQuestion g =
     (let i = currentQuestionIndex g
      in if 0 \<le> i \<and> i < int (length (questions g)) then Some (questions g ! nat i) else None)"

definition activePlayers :: "playerList \<Rightarrow> playerList" where
  "activePlayers ps = filter (\<lambda>(uid, p). \<not> isHost p) ps"

definition increase :: "int option \<Rightarrow> playerDoc \<Rightarrow> int" where
  \<comment> \<open>the points of a correct answer; a \<open>null\<close> start time counts as 0 in the subtraction,
      a timestamp that is \<open>null\<close> or 0 is falsy\<close>
  "increase questionStartTime player =
     (case answerTimestamp player of
        None \<Rightarrow> calculateScore (Some 0)
      | Some ts \<Rightarrow>
          if ts = 0 then calculateScore (Some 0)
          else
            let rt = ts - (case questionStartTime of None \<Rightarrow> 0 | Some t0 \<Rightarrow> t0)
            in calculateScore (Some (of_int rt)))"

definition scorePlayer :: "questionObj \<Rightarrow> int option \<Rightarrow> playerDoc \<Rightarrow> playerDoc" where
  \<comment> \<open>the document of a player after the updates of one scoring run; hosts are filtered
      out, a player whose answer is not the correct one is not written\<close>
  "scorePlayer q questionStartTime player =
     (if isHost player then player
      else if lastAnswer player \<noteq> Some (correctAnswer q) then player
      else player\<lparr>score := score player + increase questionStartTime player\<rparr>)"

definition useScoring_run :: "session \<times> hostState \<Rightarrow> session \<times> hostState" where
  "useScoring_run sh =
     (let s = fst sh; h = snd sh
      in case currentQuestion (lobbyState s) of
           None \<Rightarrow> sh
         | Some q \<Rightarrow>
             if \<not> showAnswers h then sh
             else if lastRunQuestionId h = Some (qid q) then sh
             else
               (s\<lparr>players :=
                    updateAll (scorePlayer q (currentQuestionStartTime (lobbyState s))) (players s)\<rparr>,
                h\<lparr>isScoring := False, lastRunQuestionId := Some (qid q)\<rparr>))"

section \<open>Host game screen\<close>

text \<open>
  \<open>HostGameScreen\<close> (\<open>src/unnamed/part_006\<close>): the reveal effect of lines 22 to 34,
  the Reveal Answers Now button of line 123 and \<open>handleNextQuestion\<close> of lines 40 to 66.
\<close>

definition allAnswered :: "playerList \<Rightarrow> bool" where
  "allAnswered ps =
     (length (filter (\<lambda>(uid, p). lastAnswer p \<noteq> None) (activePlayers ps))
        = length (activePlayers ps))"

text \<open>
  One run of the reveal effect at time \<open>now\<close>. React first runs the cleanup returned
  by the run before (\<open>clearTimeout\<close>), so the timeout of an earlier run is no longer
  pending; the body then sets a timeout of 30000 ms and reveals at once when everybody
  has answered. The effect runs when the screen mounts and after every render in which
  \<open>lobbyState\<close>, \<open>allAnswered\<close>, \<open>showAnswers\<close> or \<open>isScoring\<close> has changed.
\<close>

definition revealEffect :: "session \<Rightarrow> hostState \<Rightarrow> int \<Rightarrow> hostState" where
  "revealEffect s h now =
     (let h0 = h\<lparr>timer := None\<rparr>
      in if status (lobbyState s) = PLAYING
            \<and> currentQuestionStartTime (lobbyState s) \<noteq> None
            \<and> currentQuestionStartTime (lobbyState s) \<noteq> Some 0
         then
           (if allAnswered (players s) \<and> \<not> showAnswers h \<and> \<not> isScoring h
            then h0\<lparr>timer := Some (now + 30000), showAnswers := True\<rparr>
            else h0\<lparr>timer := Some (now + 30000)\<rparr>)
         else h0)"

text \<open>
  The callback of the timeout, and the passing of time up to \<open>now\<close>: the pending
  timeout fires once its time has come. The callback reads \<open>showAnswers\<close> and
  \<open>isScoring\<close> as they were when the effect ran; the effect runs again whenever they
  change, so these are the current values.
\<close>

definition timerCallback :: "hostState \<Rightarrow> hostState" where
  "timerCallback h = (if \<not> showAnswers h \<and> \<not> isScoring h then h\<lparr>showAnswers := True\<rparr> else h)"

definition timeout :: "hostState \<Rightarrow> int \<Rightarrow> hostState" where
  "timeout h now =
     (case timer h of
        None \<Rightarrow> h
      | Some t \<Rightarrow> if now < t then h else timerCallback (h\<lparr>timer := None\<rparr>))"

definition revealNow :: "hostState \<Rightarrow> hostState" where
  \<comment> \<open>a click on Reveal Answers Now: the button is rendered while \<open>showAnswers\<close> is
      false and is disabled while \<open>isScoring\<close> is true\<close>
  "revealNow h = (if showAnswers h \<or> isScoring h then h else h\<lparr>showAnswers := True\<rparr>)"

text \<open>
  \<open>handleNextQuestion\<close>, in the order of the source. Its first write, awaited, changes
  the game document; the snapshot of that document re-renders the host screen with the
  next question as \<open>currentQuestion\<close> while \<open>showAnswers\<close> still has the value it had
  at the click and the players' answers are not yet reset, and since
  \<open>currentQuestion?.id\<close> has changed the scoring effect runs. Only then are the player
  documents read and reset, and last \<open>showAnswers\<close> and \<open>isScoring\<close> are set to
  false; that change is rendered at time \<open>done\<close> and runs the reveal effect. The runs
  of the reveal effect between the writes are not written out: with \<open>showAnswers\<close> true
  each of them only sets a timeout, which the next run clears. The handler is reached
  through the Next button only, rendered when \<open>showAnswers\<close> is true. When no question
  is left the status becomes \<open>RESULTS\<close>, the host screen is unmounted and its cleanup
  clears the timeout.
\<close>

definition handleNextQuestion ::
    "session \<times> hostState \<Rightarrow> int \<Rightarrow> int \<Rightarrow> session \<times> hostState" where
  "handleNextQuestion sh now done =
     (let s = fst sh; h = snd sh;
          nextIndex = currentQuestionIndex (lobbyState s) + 1
      in if nextIndex < int (length (questions (lobbyState s)))
         then
           let s1 = s\<lparr>lobbyState := (lobbyState s)\<lparr>currentQuestionIndex := nextIndex,
                                                      currentQuestionStartTime := Some now\<rparr>\<rparr>;
               sh2 = useScoring_run (s1, h);
               s3 = (fst sh2)\<lparr>players :=
                      updateAll (\<lambda>p. p\<lparr>lastAnswer := None, answerTimestamp := None\<rparr>)
                        (players (fst sh2))\<rparr>;
               h3 = (snd sh2)\<lparr>showAnswers := False, isScoring := False\<rparr>
           in (s3, revealEffect s3 h3 done)
         else (s\<lparr>lobbyState := (lobbyState s)\<lparr>status := RESULTS\<rparr>\<rparr>, h\<lparr>timer := None\<rparr>))"

section \<open>Routing of the main component\<close>

text \<open>
  The render function of \<open>App\<close> (\<open>TriviaGame.jsx\<close>, lines 313 to 366), for a client
  in mode \<open>LOBBY\<close>; \<open>isHost\<close> is \<open>lobbyState.hostUserId === userId\<close>.
\<close>

definition App_screen :: "gameDoc \<Rightarrow> string \<Rightarrow> screen" where
  \<comment> \<open>the screen rendered for a signed-in user once the game document is loaded\<close>
  "App_screen g userId =
     (if status g = LOBBY \<or> status g = UPLOAD then LobbyScreen
      else if status g = PLAYING \<and> hostUserId g = userId then HostGameScreen
      else if status g = PLAYING \<and> hostUserId g \<noteq> userId then PlayerGameScreen
      else ResultsScreen)"

definition nextQuestion ::
    "session \<times> hostState \<Rightarrow> string \<Rightarrow> int \<Rightarrow> int \<Rightarrow> error + (session \<times> hostState)" where
  \<comment> \<open>a click on the Next button: the host screen is rendered and shows a question, the
      button is rendered when \<open>showAnswers\<close> is true and is disabled while \<open>isScoring\<close>
      is true\<close>
  "nextQuestion sh userId now done =
     (if App_screen (lobbyState (fst sh)) userId \<noteq> HostGameScreen then Inl NotOnScreen
      else if currentQuestion (lobbyState (fst sh)) = None then Inl NotOnScreen
      else if \<not> showAnswers (snd sh) then Inl NotOnScreen
      else if isScoring (snd sh) then Inl ButtonDisabled
      else Inr (handleNextQuestion sh now done))"

section \<open>Lobby screen: starting the game\<close>

text \<open>
  \<open>LobbyScreen\<close> (\<open>src/src/components/LobbyScreen.jsx\<close>): \<open>handleStartGame\<close> of
  lines 15 to 33 and the Start Game button of lines 117 to 124.
\<close>

definition handleStartGame :: "session \<Rightarrow> string \<Rightarrow> int \<Rightarrow> error + session" where
  "handleStartGame s userId now =
     (if hostUserId (lobbyState s) \<noteq> userId then Inl NotHost
      else if length (questions (lobbyState s)) = 0 then Inl NoQuestions
      else Inr (s\<lparr>players := updateAll (\<lambda>p. p\<lparr>lastAnswer := None, score := 0,
                                               answerTimestamp := None\<rparr>) (players s),
                  lobbyState := (lobbyState s)\<lparr>status := PLAYING, currentQuestionIndex := 0,
                                               currentQuestionStartTime := Some now\<rparr>\<rparr>))"

definition startGame :: "session \<Rightarrow> string \<Rightarrow> int \<Rightarrow> error + session" where
  \<comment> \<open>a click on the Start Game button: the lobby screen is rendered, the host controls
      are rendered for the host only, and the button is disabled when
      \<open>questionCount === 0 || players.length < 2\<close>\<close>
  "startGame s userId now =
     (if App_screen (lobbyState s) userId \<noteq> LobbyScreen then Inl NotOnScreen
      else if hostUserId (lobbyState s) \<noteq> userId then Inl NotHost
      else if length (questions (lobbyState s)) = 0 \<or> length (players s) < 2 then Inl ButtonDisabled
      else handleStartGame s userId now)"

section \<open>Player game screen: submitting an answer\<close>

text \<open>
  \<open>PlayerGameScreen\<close> (\<open>TriviaGame.jsx\<close>, lines 457 to 548): \<open>handleAnswerSubmit\<close>
  and the option buttons that call it. \<open>optionsNonEmpty\<close> and \<open>answersNonEmpty\<close> say
  that no option, and no stored answer, is the empty string.
\<close>

definition handleAnswerSubmit :: "session \<Rightarrow> string \<Rightarrow> string \<Rightarrow> int \<Rightarrow> error + session" where
  "handleAnswerSubmit s userId answer now =
     (case map_of (players s) userId of
        None \<Rightarrow> Inl NoPlayer
      | Some player \<Rightarrow>
          if truthy (lastAnswer player) then Inl AlreadyAnswered
          else Inr (s\<lparr>players := updateDoc userId
                        (\<lambda>p. p\<lparr>lastAnswer := Some answer, answerTimestamp := Some now\<rparr>)
                        (players s)\<rparr>))"

definition submitAnswer :: "session \<Rightarrow> string \<Rightarrow> nat \<Rightarrow> int \<Rightarrow> error + session" where
  \<comment> \<open>a click on the \<open>k\<close>-th option button: the buttons exist when the player screen is
      rendered and shows a question, one button per option\<close>
  "submitAnswer s userId k now =
     (if App_screen (lobbyState s) userId \<noteq> PlayerGameScreen then Inl NotOnScreen
      else case currentQuestion (lobbyState s) of
             None \<Rightarrow> Inl NotOnScreen
           | Some q \<Rightarrow>
               if map_of (players s) userId = None then Inl NotOnScreen
               else if k < length (options q) then handleAnswerSubmit s userId (options q ! k) now
               else Inl NotOnScreen)"

definition optionsNonEmpty :: "gameDoc \<Rightarrow> bool" where
  "optionsNonEmpty g = list_all (\<lambda>q. list_all (\<lambda>opt. opt \<noteq> []) (options q)) (questions g)"

definition answersNonEmpty :: "playerList \<Rightarrow> bool" where
  "answersNonEmpty ps = list_all (\<lambda>(uid, p). lastAnswer p \<noteq> Some []) ps"

section \<open>Room codes, creating and joining a game\<close>

text \<open>
  \<open>generateGameCode\<close>, \<open>handleCreateGame\<close> and \<open>handleJoinGame\<close>
  (\<open>TriviaGame.jsx\<close>, lines 111 to 113 and 214 to 288).
  \<open>Math.random()\<close> is a parameter: the list of the base-36 digits of its fraction, as
  \<open>toString(36)\<close> prints them after \<open>0.\<close> (no digit at all for the number 0).
  \<open>toUpperCase\<close> is modelled on ASCII. A user id or screen name that is \<open>null\<close> or
  empty is falsy.
\<close>

definition digit36 :: "nat \<Rightarrow> char" where
  "digit36 d = (if d < 10 then char_of (48 + d) else char_of (87 + d))"

definition toString36 :: "nat list \<Rightarrow> string" where
  "toString36 ds = (if ds = [] then ''0'' else ''0.'' @ map digit36 ds)"

definition substring :: "nat \<Rightarrow> nat \<Rightarrow> string \<Rightarrow> string" where
  "substring a b s = take (b - a) (drop a s)"

definition toUpperCase_char :: "char \<Rightarrow> char" where
  "toUpperCase_char c =
     (if 97 \<le> (of_char c :: nat) \<and> (of_char c :: nat) \<le> 122
      then char_of ((of_char c :: nat) - 32) else c)"

definition toUpperCase :: "string \<Rightarrow> string" where
  "toUpperCase s = map toUpperCase_char s"

definition generateGameCode :: "nat list \<Rightarrow> string" where
  "generateGameCode random = toUpperCase (substring 2 6 (toString36 random))"

definition isUpperAlnum :: "char \<Rightarrow> bool" where
  "isUpperAlnum c =
     ((48 \<le> (of_char c :: nat) \<and> (of_char c :: nat) \<le> 57)
      \<or> (65 \<le> (of_char c :: nat) \<and> (of_char c :: nat) \<le> 90))"

definition handleCreateGame ::
    "store \<Rightarrow> string option \<Rightarrow> string \<Rightarrow> nat list \<Rightarrow> int \<Rightarrow> error + (string \<times> store)" where
  "handleCreateGame st userId screenName random now =
     (case userId of
        None \<Rightarrow> Inl NotReady
      | Some uid \<Rightarrow>
          if uid = [] \<or> screenName = [] then Inl NotReady
          else
            let newCode = generateGameCode random;
                st1 = st\<lparr>games := (games st)(newCode \<mapsto>
                         \<lparr>gameCode = newCode, hostUserId = uid, status = LOBBY, questions = [],
                          currentQuestionIndex = - 1, currentQuestionStartTime = None\<rparr>)\<rparr>;
                st2 = st1\<lparr>playerDocs := (playerDocs st1)(newCode :=
                         setDoc uid \<lparr>name = screenName, score = 0, isHost = True,
                                     lastAnswer = None, answerTimestamp = None, timestamp = now\<rparr>
                           (playerDocs st1 newCode))\<rparr>
            in Inr (newCode, st2))"

definition handleJoinGame ::
    "store \<Rightarrow> string option \<Rightarrow> string \<Rightarrow> string \<Rightarrow> int \<Rightarrow> error + store" where
  "handleJoinGame st userId screenName code now =
     (case userId of
        None \<Rightarrow> Inl NotReady
      | Some uid \<Rightarrow>
          if uid = [] \<or> screenName = [] then Inl NotReady
          else
            let normalizedCode = toUpperCase code
            in case games st normalizedCode of
                 None \<Rightarrow> Inl GameNotFound
               | Some gameData \<Rightarrow>
                   if status gameData \<noteq> LOBBY \<and> status gameData \<noteq> UPLOAD then Inl GameInProgress
                   else Inr (st\<lparr>playerDocs := (playerDocs st)(normalizedCode :=
                           setDoc uid \<lparr>name = screenName, score = 0, isHost = False,
                                       lastAnswer = None, answerTimestamp = None, timestamp = now\<rparr>
                             (playerDocs st normalizedCode))\<rparr>))"

section \<open>CSV parser\<close>

text \<open>
  \<open>csvParser\<close> (\<open>src/unnamed/part_004\<close>).
  \<open>Math.random()\<close> inside the shuffle is a parameter: \<open>rnd i\<close> is the draw made at
  index \<open>i\<close>, and \<open>Math.floor(Math.random() * (i + 1))\<close>, which lies in \<open>0..i\<close>, is
  \<open>rnd i mod (i + 1)\<close>. The parser gets one such sequence per line. Characters are
  those of Latin-1; \<open>trim\<close> removes the white space of that range.
\<close>

definition swap :: "nat \<Rightarrow> nat \<Rightarrow> 'a list \<Rightarrow> 'a list" where
  \<comment> \<open>\<open>[copy[i], copy[j]] = [copy[j], copy[i]]\<close>\<close>
  "swap i j xs = xs[i := xs ! j, j := xs ! i]"

fun shuffleLoop :: "(nat \<Rightarrow> nat) \<Rightarrow> nat \<Rightarrow> 'a list \<Rightarrow> 'a list" where
  "shuffleLoop rnd 0 copy = copy"
| "shuffleLoop rnd (Suc i) copy =
     shuffleLoop rnd i (swap (Suc i) (rnd (Suc i) mod (Suc i + 1)) copy)"

definition shuffleArray :: "(nat \<Rightarrow> nat) \<Rightarrow> 'a list \<Rightarrow> 'a list" where
  "shuffleArray rnd array = shuffleLoop rnd (length array - 1) array"

definition isWhitespace :: "char \<Rightarrow> bool" where
  "isWhitespace c = (c \<in> set [CHR 0x09, CHR 0x0A, CHR 0x0B, CHR 0x0C, CHR 0x0D, CHR 0x20, CHR 0xA0])"

definition trim :: "string \<Rightarrow> string" where
  "trim s = rev (dropWhile isWhitespace (rev (dropWhile isWhitespace s)))"

fun split :: "char \<Rightarrow> string \<Rightarrow> string list" where
  "split sep [] = [[]]"
| "split sep (c # cs) =
     (if c = sep then [] # split sep cs
      else case split sep cs of [] \<Rightarrow> [[c]] | x # xs \<Rightarrow> (c # x) # xs)"

definition stripQuotes :: "string \<Rightarrow> string" where
  \<comment> \<open>\<open>replace(/^"|"$/g, '')\<close>\<close>
  "stripQuotes s =
     (let s1 = (case s of [] \<Rightarrow> [] | c # cs \<Rightarrow> if c = CHR 0x22 then cs else s)
      in if s1 \<noteq> [] \<and> last s1 = CHR 0x22 then butlast s1 else s1)"

definition lineParts :: "string \<Rightarrow> string list" where
  "lineParts line = map (\<lambda>p. stripQuotes (trim p)) (split (CHR '','') line)"

definition parseLine :: "(nat \<Rightarrow> nat) \<Rightarrow> nat \<Rightarrow> string \<Rightarrow> questionObj option" where
  "parseLine rnd index line =
     (case lineParts line of
        question' # correctAnswer' # distractors \<Rightarrow>
          let allOptions = take 5 (filter (\<lambda>opt. opt \<noteq> []) (correctAnswer' # distractors))
          in if length allOptions < 2 then None
             else Some \<lparr>qid = NumId index, question = question', correctAnswer = correctAnswer',
                        options = shuffleArray rnd allOptions\<rparr>
      | _ \<Rightarrow> None)"

definition csvLines :: "string \<Rightarrow> string list" where
  "csvLines csvText = filter (\<lambda>line. trim line \<noteq> []) (split (CHR 0x0A) csvText)"

definition parseCSV :: "(nat \<Rightarrow> nat \<Rightarrow> nat) \<Rightarrow> string \<Rightarrow> questionObj list" where
  "parseCSV rnd csvText =
     (if csvText = [] then []
      else List.map_filter (\<lambda>(index, line). parseLine (rnd index) index line)
             (enumerate 0 (csvLines csvText)))"

section \<open>Concrete sessions\<close>

text \<open>A small game used to evaluate the definitions: a host and two players.\<close>

definition exQuestion :: questionObj where
  "exQuestion = \<lparr>qid = NumId 0, question = ''Capital of France?'', correctAnswer = ''Paris'',
                  options = [''Rome'', ''Paris'', ''Oslo'']\<rparr>"

definition exHost :: playerDoc where
  "exHost = \<lparr>name = ''Hal'', score = 0, isHost = True, lastAnswer = None,
              answerTimestamp = None, timestamp = 1000\<rparr>"

definition exAnn :: playerDoc where
  "exAnn = \<lparr>name = ''Ann'', score = 0, isHost = False, lastAnswer = Some ''Paris'',
             answerTimestamp = None, timestamp = 2000\<rparr>"

definition exBob :: playerDoc where
  "exBob = \<lparr>name = ''Bob'', score = 0, isHost = False, lastAnswer = None,
             answerTimestamp = None, timestamp = 3000\<rparr>"

definition exGame :: gameDoc where
  "exGame = \<lparr>gameCode = ''AB42'', hostUserId = ''h'', status = PLAYING,
              questions = [exQuestion], currentQuestionIndex = 0,
              currentQuestionStartTime = Some 100000\<rparr>"

definition exSession :: session where
  "exSession = \<lparr>lobbyState = exGame, players = [(''h'', exHost), (''a'', exAnn), (''b'', exBob)]\<rparr>"

definition exRevealed :: hostState where
  "exRevealed = \<lparr>showAnswers = True, isScoring = False, lastRunQuestionId = None,
                  timer = None\<rparr>"

definition exLobbyGame :: gameDoc where
  "exLobbyGame = \<lparr>gameCode = ''AB42'', hostUserId = ''h'', status = UPLOAD,
                   questions = [exQuestion], currentQuestionIndex = - 1,
                   currentQuestionStartTime = None\<rparr>"

definition exAnnLobby :: playerDoc where
  "exAnnLobby = \<lparr>name = ''Ann'', score = 0, isHost = False, lastAnswer = None,
                  answerTimestamp = None, timestamp = 2000\<rparr>"

definition exLobby :: session where
  "exLobby = \<lparr>lobbyState = exLobbyGame, players = [(''h'', exHost), (''a'', exAnnLobby)]\<rparr>"

definition exHidden :: hostState where
  "exHidden = \<lparr>showAnswers = False, isScoring = False, lastRunQuestionId = None,
                timer = None\<rparr>"

text \<open>
  The same game with a second question, after the first question has been revealed and
  scored: Ann answered \<open>Paris\<close> (right, 1000 points), Bob answered \<open>Oslo\<close> ten seconds
  into the question (wrong, 0 points); \<open>Oslo\<close> is the correct answer of the second
  question.
\<close>

definition exQuestion2 :: questionObj where
  "exQuestion2 = \<lparr>qid = NumId 1, question = ''Capital of Norway?'', correctAnswer = ''Oslo'',
                   options = [''Oslo'', ''Rome'']\<rparr>"

definition exSession2 :: session where
  "exSession2 = \<lparr>lobbyState = exGame\<lparr>questions := [exQuestion, exQuestion2]\<rparr>,
                  players = [(''h'', exHost), (''a'', exAnn\<lparr>score := 1000\<rparr>),
                             (''b'', exBob\<lparr>lastAnswer := Some ''Oslo'',
                                           answerTimestamp := Some 110000\<rparr>)]\<rparr>"

definition exScored :: hostState where
  "exScored = \<lparr>showAnswers = True, isScoring = False, lastRunQuestionId = Some (NumId 0),
                timer = Some 160000\<rparr>"

definition exStore :: store where
  "exStore = \<lparr>games = [''AB42'' \<mapsto> exLobbyGame],
               playerDocs = (\<lambda>code. [])(''AB42'' := [(''h'', exHost), (''a'', exAnnLobby)])\<rparr>"

definition exRnd :: "nat \<Rightarrow> nat \<Rightarrow> nat" where
  "exRnd index i = 0"

section \<open>Properties of the scoring service\<close>

lemma calculateScore_seconds:
  assumes "0 \<le> t" "t \<le> 30"
  shows "calculateScore (Some (t * 1000)) = max 500 \<lfloor>1000 - 500 * (t / 30) + 1 / 2\<rfloor>"
proof -
  have "\<not> t * 1000 < 0" using assms by simp
  moreover have "min (t / 30) 1 = t / 30" using assms by simp
  ultimately show ?thesis
    by (simp add: calculateScore_def Math_round_def MAX_SCORE_def MIN_SCORE_def
        QUESTION_DURATION_SECONDS_def Let_def)
qed

lemma calculateScore_lower: "500 \<le> calculateScore r"
  by (simp add: calculateScore_def MIN_SCORE_def Let_def split: option.split)

lemma calculateScore_upper: "calculateScore r \<le> 1000"
proof (cases r)
  case None
  then show ?thesis by (simp add: calculateScore_def MIN_SCORE_def)
next
  case (Some ms)
  show ?thesis
  proof (cases "ms < 0")
    case True
    with Some show ?thesis by (simp add: calculateScore_def MIN_SCORE_def)
  next
    case False
    define ratio where "ratio = min (ms / 1000 / 30) 1"
    have "0 \<le> ratio" using False by (simp add: ratio_def)
    then have "1000 - 500 * ratio + 1 / 2 < 1001" by simp
    then have "\<lfloor>1000 - 500 * ratio + 1 / 2\<rfloor> < 1001" by (simp add: floor_less_iff)
    then show ?thesis using Some False
      by (simp add: calculateScore_def Math_round_def MAX_SCORE_def MIN_SCORE_def
          QUESTION_DURATION_SECONDS_def Let_def ratio_def)
  qed
qed

lemma calculateScore_mono:
  assumes "0 \<le> t1" "t1 \<le> t2" "t2 \<le> 30"
  shows "calculateScore (Some (t2 * 1000)) \<le> calculateScore (Some (t1 * 1000))"
proof -
  have "1000 - 500 * (t2 / 30) + 1 / 2 \<le> 1000 - 500 * (t1 / 30) + 1 / 2"
    using assms by simp
  then have "\<lfloor>1000 - 500 * (t2 / 30) + 1 / 2\<rfloor> \<le> \<lfloor>1000 - 500 * (t1 / 30) + 1 / 2\<rfloor>"
    by (rule floor_mono)
  then show ?thesis
    using assms by (simp add: calculateScore_seconds)
qed

lemma calculateScore_zero: "calculateScore (Some 0) = 1000"
  by code_simp

lemma calculateScore_deadline: "calculateScore (Some 30000) = 500"
  by code_simp

lemma scorePlayer_wrong:
  "lastAnswer p \<noteq> Some (correctAnswer q) \<Longrightarrow> scorePlayer q start p = p"
  by (simp add: scorePlayer_def)

lemma scorePlayer_timed:
  assumes "\<not> isHost p" "lastAnswer p = Some (correctAnswer q)"
    and "answerTimestamp p = Some ts" "ts \<noteq> 0"
  shows "score (scorePlayer q (Some t0) p) = score p + calculateScore (Some (of_int (ts - t0)))"
  using assms by (simp add: scorePlayer_def increase_def)

lemma scorePlayer_untimed:
  assumes "\<not> isHost p" "lastAnswer p = Some (correctAnswer q)" "answerTimestamp p = None"
  shows "score (scorePlayer q start p) = score p + 1000"
  using assms by (simp add: scorePlayer_def increase_def calculateScore_zero)


text \<open>
  Claim C3. For a response time of \<open>t\<close> seconds between 0 and 30 (that is
  \<open>t * 1000\<close> milliseconds), the score of a correct answer does not increase with
  \<open>t\<close>, is 1000 at \<open>t = 0\<close> and 500 at \<open>t = 30\<close>, and lies between 500 and 1000.
  A non-host player whose answer is the correct one and carries a timestamp gets
  \<open>calculateScore\<close> of the elapsed milliseconds added; a player whose answer is not
  the correct one (or who gave none) keeps the score unchanged, that is, gets 0 points.
\<close>

theorem C3_score_decay:
  "0 \<le> t1 \<Longrightarrow> t1 \<le> t2 \<Longrightarrow> t2 \<le> 30 \<Longrightarrow>
     calculateScore (Some (t2 * 1000)) \<le> calculateScore (Some (t1 * 1000))
     \<and> calculateScore (Some (0 * 1000)) = 1000
     \<and> calculateScore (Some (30 * 1000)) = 500
     \<and> 500 \<le> calculateScore (Some (t1 * 1000))
     \<and> calculateScore (Some (t1 * 1000)) \<le> 1000
     \<and> (\<not> isHost p \<and> lastAnswer p = Some (correctAnswer q) \<and> answerTimestamp p = Some ts
          \<and> ts \<noteq> 0 \<longrightarrow>
          score (scorePlayer q (Some t0) p) = score p + calculateScore (Some (of_int (ts - t0))))
     \<and> (lastAnswer p \<noteq> Some (correctAnswer q) \<longrightarrow>
          score (scorePlayer q (Some t0) p) = score p)"
  using calculateScore_mono [of t1 t2] calculateScore_lower calculateScore_upper
  by (simp add: calculateScore_zero calculateScore_deadline scorePlayer_wrong scorePlayer_timed)

theorem C3_score_decay_witness:
  "calculateScore (Some (15 * 1000)) \<le> calculateScore (Some (6 * 1000))
   \<and> calculateScore (Some (6 * 1000)) = 900
   \<and> calculateScore (Some (15 * 1000)) = 750
   \<and> score (scorePlayer exQuestion (Some 100000) (exAnn\<lparr>answerTimestamp := Some 106000\<rparr>)) = 900
   \<and> score (scorePlayer exQuestion (Some 100000) exBob) = 0"
proof -
  have a: "calculateScore (Some (6 * 1000)) = 900" "calculateScore (Some (15 * 1000)) = 750"
    by code_simp+
  have b: "calculateScore (Some (rat_of_int (106000 - 100000))) = 900"
    using a(1) by simp
  show ?thesis
    using C3_score_decay [of 6 15 "exAnn\<lparr>answerTimestamp := Some 106000\<rparr>" exQuestion 106000 100000]
      C3_score_decay [of 6 15 exBob exQuestion 0 100000] a b
    by (simp add: exAnn_def exBob_def exQuestion_def)
qed


text \<open>
  Claim C2, as stated, fails: a non-host player with the correct answer and no answer
  timestamp is awarded \<open>calculateScore(0)\<close>, which is 1000 and not \<open>MIN_SCORE\<close> = 500.
\<close>

theorem C2_counterexample:
  "\<not> isHost exAnn \<and> lastAnswer exAnn = Some (correctAnswer exQuestion)
   \<and> answerTimestamp exAnn = None
   \<and> score (scorePlayer exQuestion (Some 100000) exAnn) - score exAnn \<noteq> MIN_SCORE"
  by (simp add: exAnn_def exQuestion_def scorePlayer_def increase_def calculateScore_zero MIN_SCORE_def)


text \<open>
  Claim C2, amended. When scoring a reveal, every non-host player whose \<open>lastAnswer\<close>
  equals the question's correct answer but whose \<open>answerTimestamp\<close> is missing is
  awarded \<open>MAX_SCORE\<close> = 1000 points for that question.
\<close>

theorem C2_missing_timestamp_awards_max:
  "\<not> isHost p \<Longrightarrow> lastAnswer p = Some (correctAnswer q) \<Longrightarrow> answerTimestamp p = None \<Longrightarrow>
     score (scorePlayer q start p) - score p = MAX_SCORE"
  by (simp add: scorePlayer_untimed MAX_SCORE_def)

theorem C2_missing_timestamp_awards_max_witness:
  "score (scorePlayer exQuestion (Some 100000) exAnn) - score exAnn = MAX_SCORE"
  using C2_missing_timestamp_awards_max [of exAnn exQuestion "Some 100000"]
  by (simp add: exAnn_def exQuestion_def)


section \<open>Properties of the scoring hook\<close>

lemma useScoring_run_idem: "useScoring_run (useScoring_run sh) = useScoring_run sh"
  by (cases sh) (simp add: useScoring_run_def currentQuestion_def Let_def split: option.splits)

lemma useScoring_run_funpow: "(useScoring_run ^^ Suc n) sh = useScoring_run sh"
  by (induction n) (simp_all add: useScoring_run_idem)

lemma useScoring_run_marker:
  "showAnswers h \<Longrightarrow> currentQuestion (lobbyState s) = Some q \<Longrightarrow>
     lastRunQuestionId (snd (useScoring_run (s, h))) = Some (qid q)"
  by (simp add: useScoring_run_def)

lemma useScoring_run_first:
  "showAnswers h \<Longrightarrow> currentQuestion (lobbyState s) = Some q \<Longrightarrow>
   lastRunQuestionId h \<noteq> Some (qid q) \<Longrightarrow>
     players (fst (useScoring_run (s, h)))
       = updateAll (scorePlayer q (currentQuestionStartTime (lobbyState s))) (players s)"
  by (simp add: useScoring_run_def)

lemma useScoring_run_blocked:
  "currentQuestion (lobbyState s) = Some q \<Longrightarrow> lastRunQuestionId h = Some (qid q) \<Longrightarrow>
     useScoring_run (s, h) = (s, h)"
  by (simp add: useScoring_run_def)

lemma exSession_question: "currentQuestion (lobbyState exSession) = Some exQuestion"
  by (simp add: currentQuestion_def exSession_def exGame_def)


text \<open>
  Claim C1. Delivering the reveal of the same question again, any number of times, leaves
  the players and the hook state as one run of the scoring leaves them. The first run
  after the reveal of a question not yet scored updates every player by
  \<open>scorePlayer\<close> once and stores the question id as \<open>lastRunQuestionId\<close>; and whenever
  the stored id is the id of the current question, a run changes nothing, whatever the
  players' documents hold by then.
\<close>

theorem C1_scoring_once:
  "(useScoring_run ^^ Suc n) (s, h) = useScoring_run (s, h)
   \<and> (showAnswers h \<and> currentQuestion (lobbyState s) = Some q \<and> lastRunQuestionId h \<noteq> Some (qid q) \<longrightarrow>
        players (fst ((useScoring_run ^^ Suc n) (s, h)))
          = updateAll (scorePlayer q (currentQuestionStartTime (lobbyState s))) (players s)
        \<and> lastRunQuestionId (snd ((useScoring_run ^^ Suc n) (s, h))) = Some (qid q))
   \<and> (currentQuestion (lobbyState s') = Some q' \<and> lastRunQuestionId h' = Some (qid q') \<longrightarrow>
        useScoring_run (s', h') = (s', h'))"
  using useScoring_run_funpow [of n "(s, h)"]
  by (simp del: funpow.simps add: useScoring_run_first useScoring_run_marker useScoring_run_blocked)

theorem C1_scoring_once_witness:
  "map (\<lambda>(uid, p). (uid, score p)) (players (fst ((useScoring_run ^^ Suc 1) (exSession, exRevealed))))
     = [(''h'', 0), (''a'', 1000), (''b'', 0)]
   \<and> lastRunQuestionId (snd ((useScoring_run ^^ Suc 1) (exSession, exRevealed))) = Some (NumId 0)"
proof -
  have "showAnswers exRevealed" "lastRunQuestionId exRevealed \<noteq> Some (qid exQuestion)"
    by (simp_all add: exRevealed_def)
  then have
    "players (fst ((useScoring_run ^^ Suc 1) (exSession, exRevealed)))
       = updateAll (scorePlayer exQuestion (currentQuestionStartTime (lobbyState exSession)))
           (players exSession)
     \<and> lastRunQuestionId (snd ((useScoring_run ^^ Suc 1) (exSession, exRevealed)))
         = Some (qid exQuestion)"
    using C1_scoring_once [of 1 exSession exRevealed exQuestion exSession exQuestion exRevealed]
      exSession_question
    by blast
  then show ?thesis
    by (simp only:)
      (simp add: exSession_def exGame_def exQuestion_def updateAll_def scorePlayer_def increase_def
          calculateScore_zero exHost_def exAnn_def exBob_def)
qed



section \<open>Properties of answer submission\<close>

lemma map_of_updateDoc:
  "map_of (updateDoc k f ds) k' = (if k' = k then map_option f (map_of ds k) else map_of ds k')"
  by (induction ds) (auto simp: updateDoc_def)

lemma map_fst_updateDoc: "map fst (updateDoc k f ds) = map fst ds"
  by (induction ds) (auto simp: updateDoc_def)

lemma map_fst_updateAll: "map fst (updateAll f ds) = map fst ds"
  by (induction ds) (auto simp: updateAll_def)

lemma list_all2_updateAll:
  "list_all2 (\<lambda>(k, v) (k', v'). k' = k \<and> v' = f v) ds (updateAll f ds)"
  by (induction ds) (auto simp: updateAll_def)

lemma answersNonEmpty_map_of:
  "answersNonEmpty ps \<Longrightarrow> map_of ps uid = Some p \<Longrightarrow> lastAnswer p \<noteq> Some []"
  by (induction ps) (auto simp: answersNonEmpty_def split: if_splits)

lemma truthy_iff: "lastAnswer p \<noteq> Some [] \<Longrightarrow> truthy (lastAnswer p) \<longleftrightarrow> lastAnswer p \<noteq> None"
  by (cases "lastAnswer p") (simp_all add: truthy_def)

lemma handleAnswerSubmit_locked:
  assumes "answersNonEmpty (players s)" "map_of (players s) uid = Some p" "lastAnswer p \<noteq> None"
  shows "handleAnswerSubmit s uid a now = Inl AlreadyAnswered"
  using assms answersNonEmpty_map_of [OF assms(1,2)]
  by (simp add: handleAnswerSubmit_def truthy_iff)

lemma submitAnswer_locked:
  assumes "answersNonEmpty (players s)" "map_of (players s) uid = Some p" "lastAnswer p \<noteq> None"
  shows "isl (submitAnswer s uid k now)"
  using handleAnswerSubmit_locked [OF assms]
  by (simp add: submitAnswer_def split: option.splits)

lemma handleAnswerSubmit_Inr:
  assumes "handleAnswerSubmit s uid a now = Inr s'"
  shows "\<exists>p. map_of (players s) uid = Some p \<and> \<not> truthy (lastAnswer p)
           \<and> lobbyState s' = lobbyState s
           \<and> players s' = updateDoc uid (\<lambda>p. p\<lparr>lastAnswer := Some a, answerTimestamp := Some now\<rparr>) (players s)"
  using assms by (auto simp: handleAnswerSubmit_def split: option.splits if_splits)

lemma submitAnswer_Inr:
  assumes "submitAnswer s uid k now = Inr s'"
  shows "status (lobbyState s) = PLAYING \<and> hostUserId (lobbyState s) \<noteq> uid
         \<and> (\<exists>q. currentQuestion (lobbyState s) = Some q \<and> k < length (options q)
                \<and> handleAnswerSubmit s uid (options q ! k) now = Inr s')"
  using assms
  by (auto simp: submitAnswer_def App_screen_def split: option.splits if_splits)

lemma currentQuestion_in_questions:
  "currentQuestion g = Some q \<Longrightarrow> q \<in> set (questions g)"
  by (auto simp: currentQuestion_def Let_def split: if_splits)

lemma optionsNonEmpty_option:
  assumes "optionsNonEmpty g" "currentQuestion g = Some q" "k < length (options q)"
  shows "options q ! k \<noteq> []"
proof -
  have "q \<in> set (questions g)" using assms(2) by (rule currentQuestion_in_questions)
  then have "list_all (\<lambda>opt. opt \<noteq> []) (options q)"
    using assms(1) by (simp add: optionsNonEmpty_def list_all_iff)
  then show ?thesis using assms(3) by (simp add: list_all_length)
qed

lemma answersNonEmpty_updateDoc:
  assumes "answersNonEmpty ps" "a \<noteq> []"
  shows "answersNonEmpty (updateDoc uid (\<lambda>p. p\<lparr>lastAnswer := Some a, answerTimestamp := t\<rparr>) ps)"
  using assms by (induction ps) (auto simp: answersNonEmpty_def updateDoc_def split: if_splits)


text \<open>
  Claim C4. No player document holds the empty string as \<open>lastAnswer\<close> (the answers
  written are options of a question, and both question sources drop empty options; this
  is \<open>answersNonEmpty\<close>, kept by every submission when \<open>optionsNonEmpty\<close> holds).
  Then: a click on an option writes an answer only if the status is \<open>PLAYING\<close> and the
  player's \<open>lastAnswer\<close> is \<open>null\<close>; once \<open>lastAnswer\<close> is not \<open>null\<close>, the handler
  returns without writing and the session (so the player's \<open>lastAnswer\<close>,
  \<open>answerTimestamp\<close> and \<open>score\<close>) is unchanged; and after a successful submission
  every later submission by the same player leaves the session unchanged.
\<close>

theorem C4_first_answer_wins:
  assumes "answersNonEmpty (players s)"
  shows "(submitAnswer s uid k now = Inr s' \<longrightarrow>
            status (lobbyState s) = PLAYING
            \<and> (\<exists>p. map_of (players s) uid = Some p \<and> lastAnswer p = None))
         \<and> (map_of (players s) uid = Some p \<and> lastAnswer p \<noteq> None \<longrightarrow>
              handleAnswerSubmit s uid a now = Inl AlreadyAnswered
              \<and> stateAfter s (submitAnswer s uid k now) = s)
         \<and> (submitAnswer s uid k now = Inr s' \<and> optionsNonEmpty (lobbyState s) \<longrightarrow>
              answersNonEmpty (players s')
              \<and> (\<exists>p'. map_of (players s') uid = Some p' \<and> lastAnswer p' \<noteq> None
                     \<and> answerTimestamp p' = Some now)
              \<and> stateAfter s' (submitAnswer s' uid k2 now2) = s')"
proof (intro conjI impI)
  assume r: "submitAnswer s uid k now = Inr s'"
  from submitAnswer_Inr [OF r] obtain q :: questionObj where
    st: "status (lobbyState s) = PLAYING" and
    h: "handleAnswerSubmit s uid (options q ! k) now = Inr s'" by blast
  from handleAnswerSubmit_Inr [OF h] obtain p0 where
    p0: "map_of (players s) uid = Some p0" "\<not> truthy (lastAnswer p0)" by blast
  have "lastAnswer p0 = None"
    using p0 answersNonEmpty_map_of [OF assms p0(1)] by (simp add: truthy_iff)
  with p0 show "\<exists>p. map_of (players s) uid = Some p \<and> lastAnswer p = None" by blast
  show "status (lobbyState s) = PLAYING" by (rule st)
next
  assume a: "map_of (players s) uid = Some p \<and> lastAnswer p \<noteq> None"
  then show "handleAnswerSubmit s uid a now = Inl AlreadyAnswered"
    using handleAnswerSubmit_locked [OF assms] by blast
  have "isl (submitAnswer s uid k now)"
    using a submitAnswer_locked [OF assms] by blast
  then show "stateAfter s (submitAnswer s uid k now) = s"
    by (cases "submitAnswer s uid k now") (simp_all add: stateAfter_def)
next
  assume a: "submitAnswer s uid k now = Inr s' \<and> optionsNonEmpty (lobbyState s)"
  then have r: "submitAnswer s uid k now = Inr s'" and o: "optionsNonEmpty (lobbyState s)"
    by simp_all
  from submitAnswer_Inr [OF r] obtain q :: questionObj where
    q: "currentQuestion (lobbyState s) = Some q" "k < length (options q)" and
    h: "handleAnswerSubmit s uid (options q ! k) now = Inr s'" by blast
  have ne: "options q ! k \<noteq> []" using optionsNonEmpty_option [OF o q] .
  from handleAnswerSubmit_Inr [OF h] obtain p0 where
    p0: "map_of (players s) uid = Some p0" and
    ps: "players s' = updateDoc uid (\<lambda>p. p\<lparr>lastAnswer := Some (options q ! k),
           answerTimestamp := Some now\<rparr>) (players s)" by blast
  show inv: "answersNonEmpty (players s')"
    unfolding ps using assms ne by (rule answersNonEmpty_updateDoc)
  have m: "map_of (players s') uid
      = Some (p0\<lparr>lastAnswer := Some (options q ! k), answerTimestamp := Some now\<rparr>)"
    by (simp add: ps map_of_updateDoc p0)
  then show "\<exists>p'. map_of (players s') uid = Some p' \<and> lastAnswer p' \<noteq> None
      \<and> answerTimestamp p' = Some now" by simp
  have "isl (submitAnswer s' uid k2 now2)"
    using submitAnswer_locked [OF inv m] by simp
  then show "stateAfter s' (submitAnswer s' uid k2 now2) = s'"
    by (cases "submitAnswer s' uid k2 now2") (simp_all add: stateAfter_def)
qed

lemma exSession_nonEmpty: "answersNonEmpty (players exSession)"
  by (simp add: answersNonEmpty_def exSession_def exHost_def exAnn_def exBob_def)

lemma exSession_bob_submits:
  "submitAnswer exSession ''b'' 1 104000
     = Inr (exSession\<lparr>players := [(''h'', exHost), (''a'', exAnn),
              (''b'', exBob\<lparr>lastAnswer := Some ''Paris'', answerTimestamp := Some 104000\<rparr>)]\<rparr>)"
  by (simp add: submitAnswer_def App_screen_def currentQuestion_def handleAnswerSubmit_def
      truthy_def updateDoc_def exSession_def exGame_def exQuestion_def exBob_def)

theorem C4_first_answer_wins_witness:
  "answersNonEmpty (players exSession)
   \<and> status (lobbyState exSession) = PLAYING
   \<and> handleAnswerSubmit exSession ''a'' ''Rome'' 105000 = Inl AlreadyAnswered
   \<and> stateAfter exSession (submitAnswer exSession ''a'' 0 105000) = exSession
   \<and> stateAfter (projr (submitAnswer exSession ''b'' 1 104000))
        (submitAnswer (projr (submitAnswer exSession ''b'' 1 104000)) ''b'' 0 105000)
       = projr (submitAnswer exSession ''b'' 1 104000)"
proof -
  have a: "map_of (players exSession) ''a'' = Some exAnn \<and> lastAnswer exAnn \<noteq> None"
    by (simp add: exSession_def exAnn_def)
  have o: "optionsNonEmpty (lobbyState exSession)"
    by (simp add: optionsNonEmpty_def exSession_def exGame_def exQuestion_def)
  have r: "submitAnswer exSession ''b'' 1 104000
      = Inr (projr (submitAnswer exSession ''b'' 1 104000))"
    by (simp only: exSession_bob_submits sum.sel)
  show ?thesis
    using C4_first_answer_wins [OF exSession_nonEmpty, of "''a''" 0 105000 _ exAnn "''Rome''"] a
      C4_first_answer_wins [OF exSession_nonEmpty, of "''b''" 1 104000
        "projr (submitAnswer exSession ''b'' 1 104000)" exBob "''Rome''" 0 105000] o r
      exSession_nonEmpty
    by blast
qed

section \<open>Properties of starting the game\<close>

lemma list_all2_updateAll_prop:
  assumes "\<And>k v. (k, v) \<in> set ds \<Longrightarrow> P (k, v) (k, f v)"
  shows "list_all2 P ds (updateAll f ds)"
  using assms by (induction ds) (auto simp: updateAll_def)

lemma startGame_Inr_iff:
  "(\<exists>s'. startGame s uid now = Inr s') \<longleftrightarrow>
     (status (lobbyState s) = LOBBY \<or> status (lobbyState s) = UPLOAD)
     \<and> hostUserId (lobbyState s) = uid
     \<and> 1 \<le> length (questions (lobbyState s)) \<and> 2 \<le> length (players s)"
  by (cases "questions (lobbyState s)")
    (auto simp: startGame_def handleStartGame_def App_screen_def)

lemma startGame_result:
  assumes "startGame s uid now = Inr s'"
  shows "s' = s\<lparr>players := updateAll (\<lambda>p. p\<lparr>lastAnswer := None, score := 0,
                                           answerTimestamp := None\<rparr>) (players s),
               lobbyState := (lobbyState s)\<lparr>status := PLAYING, currentQuestionIndex := 0,
                                           currentQuestionStartTime := Some now\<rparr>\<rparr>"
  using assms by (auto simp: startGame_def handleStartGame_def split: if_splits)

text \<open>
  Claim C5, as stated, fails: with one question loaded, the host and a single non-host
  player in the lobby, a click on Start Game by the host succeeds; the button is
  disabled when \<open>players.length < 2\<close>, and \<open>players\<close> counts the host.
\<close>

theorem C5_counterexample:
  "length (activePlayers (players exLobby)) = 1
   \<and> length (questions (lobbyState exLobby)) = 1
   \<and> \<not> isl (startGame exLobby ''h'' 5000)
   \<and> status (lobbyState (projr (startGame exLobby ''h'' 5000))) = PLAYING"
  by (simp add: startGame_def handleStartGame_def App_screen_def activePlayers_def exLobby_def
      exLobbyGame_def exHost_def exAnnLobby_def)

text \<open>
  Claim C5, amended. Starting the game is refused, and nothing is written, unless the
  status is \<open>LOBBY\<close> or \<open>UPLOAD\<close>, the caller is the host, at least 1 question is
  loaded and the roster has at least 2 player documents, whatever their host flags. When
  it succeeds, every player's \<open>lastAnswer\<close> and \<open>answerTimestamp\<close> are \<open>null\<close> and
  the score is 0 (identity, name and host flag are kept), the status is \<open>PLAYING\<close>, the
  current question index is 0 and the start timestamp is the time of the call. A started
  game whose roster has at most one document with the host flag has at least 1 non-host
  player.
\<close>

theorem C5_start_game:
  "(isl (startGame s uid now) \<longleftrightarrow>
      \<not> ((status (lobbyState s) = LOBBY \<or> status (lobbyState s) = UPLOAD)
         \<and> hostUserId (lobbyState s) = uid
         \<and> 1 \<le> length (questions (lobbyState s)) \<and> 2 \<le> length (players s)))
   \<and> (startGame s uid now = Inr s' \<longrightarrow>
        status (lobbyState s') = PLAYING
        \<and> currentQuestionIndex (lobbyState s') = 0
        \<and> currentQuestionStartTime (lobbyState s') = Some now
        \<and> questions (lobbyState s') = questions (lobbyState s)
        \<and> list_all2 (\<lambda>(u, p) (u', p'). u' = u \<and> lastAnswer p' = None \<and> answerTimestamp p' = None
                        \<and> score p' = 0 \<and> name p' = name p \<and> isHost p' = isHost p)
             (players s) (players s'))
   \<and> (\<not> isl (startGame s uid now) \<and> length (filter (\<lambda>(u, p). isHost p) (players s)) \<le> 1 \<longrightarrow>
        1 \<le> length (activePlayers (players s)))"
proof (intro conjI impI)
  have "isl (startGame s uid now) \<longleftrightarrow> \<not> (\<exists>s'. startGame s uid now = Inr s')"
    by (cases "startGame s uid now") simp_all
  then show "isl (startGame s uid now) \<longleftrightarrow>
      \<not> ((status (lobbyState s) = LOBBY \<or> status (lobbyState s) = UPLOAD)
         \<and> hostUserId (lobbyState s) = uid
         \<and> 1 \<le> length (questions (lobbyState s)) \<and> 2 \<le> length (players s))"
    by (simp only: startGame_Inr_iff)
next
  assume r: "startGame s uid now = Inr s'"
  note eq = startGame_result [OF r]
  show "status (lobbyState s') = PLAYING" "currentQuestionIndex (lobbyState s') = 0"
    "currentQuestionStartTime (lobbyState s') = Some now"
    "questions (lobbyState s') = questions (lobbyState s)"
    by (simp_all add: eq)
  have "players s' = updateAll (\<lambda>p. p\<lparr>lastAnswer := None, score := 0,
      answerTimestamp := None\<rparr>) (players s)"
    by (simp add: eq)
  then show "list_all2 (\<lambda>(u, p) (u', p'). u' = u \<and> lastAnswer p' = None
      \<and> answerTimestamp p' = None \<and> score p' = 0 \<and> name p' = name p \<and> isHost p' = isHost p)
      (players s) (players s')"
    by (simp add: list_all2_updateAll_prop)
next
  assume a: "\<not> isl (startGame s uid now)
      \<and> length (filter (\<lambda>(u, p). isHost p) (players s)) \<le> 1"
  then have "\<exists>s'. startGame s uid now = Inr s'"
    by (cases "startGame s uid now") simp_all
  then have two: "2 \<le> length (players s)"
    by (simp only: startGame_Inr_iff)
  have ap: "activePlayers (players s)
      = filter (\<lambda>x. \<not> (case x of (u, p) \<Rightarrow> isHost p)) (players s)"
    unfolding activePlayers_def
    by (rule arg_cong [where f = "\<lambda>f. filter f (players s)"]) auto
  have "length (filter (\<lambda>(u, p). isHost p) (players s)) + length (activePlayers (players s))
      = length (players s)"
    by (simp only: ap sum_length_filter_compl)
  with a two show "1 \<le> length (activePlayers (players s))" by linarith
qed

theorem C5_start_game_witness:
  "\<not> isl (startGame exLobby ''h'' 5000)
   \<and> isl (startGame (exLobby\<lparr>players := [(''h'', exHost)]\<rparr>) ''h'' 5000)
   \<and> currentQuestionIndex (lobbyState (projr (startGame exLobby ''h'' 5000))) = 0
   \<and> currentQuestionStartTime (lobbyState (projr (startGame exLobby ''h'' 5000))) = Some 5000"
proof -
  have a: "(status (lobbyState exLobby) = LOBBY \<or> status (lobbyState exLobby) = UPLOAD)
      \<and> hostUserId (lobbyState exLobby) = ''h''
      \<and> 1 \<le> length (questions (lobbyState exLobby)) \<and> 2 \<le> length (players exLobby)"
    by (simp add: exLobby_def exLobbyGame_def)
  have b: "\<not> 2 \<le> length (players (exLobby\<lparr>players := [(''h'', exHost)]\<rparr>))"
    by simp
  have c: "\<not> isl (startGame exLobby ''h'' 5000)"
    using C5_start_game [of exLobby "''h''" 5000] a by blast
  then have d: "startGame exLobby ''h'' 5000 = Inr (projr (startGame exLobby ''h'' 5000))"
    by (cases "startGame exLobby ''h'' 5000") simp_all
  show ?thesis
    using c b C5_start_game [of "exLobby\<lparr>players := [(''h'', exHost)]\<rparr>" "''h''" 5000]
      C5_start_game [of exLobby "''h''" 5000 "projr (startGame exLobby ''h'' 5000)"] d
    by blast
qed

section \<open>Properties of the reveal effect\<close>

lemma revealEffect_timer:
  "status (lobbyState s) = PLAYING \<Longrightarrow> currentQuestionStartTime (lobbyState s) = Some t0 \<Longrightarrow>
   t0 \<noteq> 0 \<Longrightarrow> timer (revealEffect s h now) = Some (now + 30000)"
  by (simp add: revealEffect_def Let_def)

lemma revealEffect_rearmed:
  "status (lobbyState s) = PLAYING \<Longrightarrow> currentQuestionStartTime (lobbyState s) = Some t0 \<Longrightarrow>
   t0 \<noteq> 0 \<Longrightarrow> timer (revealEffect s (revealEffect s h earlier) now) = Some (now + 30000)"
  by (simp add: revealEffect_timer)

lemma revealEffect_all_answered:
  assumes "status (lobbyState s) = PLAYING" "currentQuestionStartTime (lobbyState s) = Some t0"
    and "t0 \<noteq> 0" "allAnswered (players s)" "\<not> isScoring h"
  shows "showAnswers (revealEffect s h now)"
  using assms by (simp add: revealEffect_def Let_def)

lemma revealEffect_waiting:
  "\<not> allAnswered (players s) \<Longrightarrow> showAnswers (revealEffect s h now) = showAnswers h"
  by (simp add: revealEffect_def Let_def)

lemma revealEffect_revealed:
  "showAnswers h \<Longrightarrow> showAnswers (revealEffect s h now)"
  by (simp add: revealEffect_def Let_def)

lemma revealEffect_idle:
  "status (lobbyState s) \<noteq> PLAYING \<or> currentQuestionStartTime (lobbyState s) = None \<Longrightarrow>
     revealEffect s h now = h\<lparr>timer := None\<rparr>"
  by (auto simp: revealEffect_def Let_def)

lemma timeout_pending: "timer h = Some t \<Longrightarrow> now < t \<Longrightarrow> timeout h now = h"
  by (simp add: timeout_def)

lemma timeout_fires:
  "timer h = Some t \<Longrightarrow> t \<le> now \<Longrightarrow> \<not> isScoring h \<Longrightarrow> showAnswers (timeout h now)"
  by (simp add: timeout_def timerCallback_def)

lemma timeout_revealed: "showAnswers h \<Longrightarrow> showAnswers (timeout h now)"
  by (simp add: timeout_def timerCallback_def split: option.split)

lemma timerCallback_revealed: "showAnswers h \<Longrightarrow> timerCallback h = h"
  by (simp add: timerCallback_def)

lemma revealNow_reveals: "\<not> isScoring h \<Longrightarrow> showAnswers (revealNow h)"
  by (simp add: revealNow_def)

lemma revealNow_revealed: "showAnswers h \<Longrightarrow> revealNow h = h"
  by (simp add: revealNow_def)

text \<open>
  Claim C7 says that the deadline of the active question is its persisted start
  timestamp plus 30 seconds. At this input the code does otherwise: the start timestamp
  is 100000, one player has not answered, and the reveal effect last runs at 100800 (the
  render of the state change that follows the write of the start timestamp). The timeout
  then pending is the one set by that run, for 130800: at 130000, the start timestamp plus
  30 seconds, the answers are not revealed; they are at 130800.
\<close>

theorem C7_deadline_counts_from_effect_run:
  "currentQuestionStartTime (lobbyState exSession) = Some 100000
   \<and> \<not> allAnswered (players exSession)
   \<and> timer (revealEffect exSession exHidden 100800) = Some 130800
   \<and> \<not> showAnswers (timeout (revealEffect exSession exHidden 100800) 130000)
   \<and> showAnswers (timeout (revealEffect exSession exHidden 100800) 130800)"
  by (simp add: revealEffect_def Let_def timeout_def timerCallback_def allAnswered_def
      activePlayers_def exSession_def exGame_def exHost_def exAnn_def exBob_def exHidden_def)

section \<open>Properties of advancing to the next question\<close>

lemma lobbyState_useScoring_run: "lobbyState (fst (useScoring_run (s, h))) = lobbyState s"
  by (simp add: useScoring_run_def split: option.split)

lemma updateAll_updateAll: "updateAll g (updateAll f ds) = updateAll (\<lambda>v. g (f v)) ds"
  by (induction ds) (auto simp: updateAll_def)

lemma players_useScoring_run:
  "players (fst (useScoring_run (s, h))) = players s
   \<or> (\<exists>q. players (fst (useScoring_run (s, h)))
             = updateAll (scorePlayer q (currentQuestionStartTime (lobbyState s))) (players s))"
  by (auto simp: useScoring_run_def split: option.split)

lemma handleNextQuestion_more:
  assumes "currentQuestionIndex (lobbyState s) + 1 < int (length (questions (lobbyState s)))"
  shows "handleNextQuestion (s, h) now done =
     (let s1 = s\<lparr>lobbyState := (lobbyState s)\<lparr>
                   currentQuestionIndex := currentQuestionIndex (lobbyState s) + 1,
                   currentQuestionStartTime := Some now\<rparr>\<rparr>;
          sh2 = useScoring_run (s1, h);
          s3 = (fst sh2)\<lparr>players :=
                 updateAll (\<lambda>p. p\<lparr>lastAnswer := None, answerTimestamp := None\<rparr>)
                   (players (fst sh2))\<rparr>;
          h3 = (snd sh2)\<lparr>showAnswers := False, isScoring := False\<rparr>
      in (s3, revealEffect s3 h3 done))"
  using assms by (simp add: handleNextQuestion_def Let_def)

lemma handleNextQuestion_last:
  assumes "\<not> currentQuestionIndex (lobbyState s) + 1 < int (length (questions (lobbyState s)))"
  shows "handleNextQuestion (s, h) now done
           = (s\<lparr>lobbyState := (lobbyState s)\<lparr>status := RESULTS\<rparr>\<rparr>, h\<lparr>timer := None\<rparr>)"
  using assms by (simp add: handleNextQuestion_def Let_def)

lemma handleNextQuestion_game:
  assumes "currentQuestionIndex (lobbyState s) + 1 < int (length (questions (lobbyState s)))"
  shows "lobbyState (fst (handleNextQuestion (s, h) now done))
           = (lobbyState s)\<lparr>currentQuestionIndex := currentQuestionIndex (lobbyState s) + 1,
                            currentQuestionStartTime := Some now\<rparr>"
  by (simp add: handleNextQuestion_more [OF assms] Let_def lobbyState_useScoring_run)

lemma handleNextQuestion_players:
  assumes "currentQuestionIndex (lobbyState s) + 1 < int (length (questions (lobbyState s)))"
  shows "list_all2 (\<lambda>(u, p) (u', p'). u' = u \<and> lastAnswer p' = None \<and> answerTimestamp p' = None
                      \<and> name p' = name p \<and> isHost p' = isHost p)
           (players s) (players (fst (handleNextQuestion (s, h) now done)))"
proof -
  define s1 where "s1 = s\<lparr>lobbyState := (lobbyState s)\<lparr>
      currentQuestionIndex := currentQuestionIndex (lobbyState s) + 1,
      currentQuestionStartTime := Some now\<rparr>\<rparr>"
  have r: "players (fst (handleNextQuestion (s, h) now done))
      = updateAll (\<lambda>p. p\<lparr>lastAnswer := None, answerTimestamp := None\<rparr>)
          (players (fst (useScoring_run (s1, h))))"
    by (simp add: handleNextQuestion_more [OF assms] Let_def s1_def)
  have p: "players s1 = players s" by (simp add: s1_def)
  from players_useScoring_run [of s1 h] show ?thesis
  proof
    assume "players (fst (useScoring_run (s1, h))) = players s1"
    then show ?thesis
      by (simp add: r p list_all2_updateAll_prop)
  next
    assume "\<exists>q. players (fst (useScoring_run (s1, h)))
        = updateAll (scorePlayer q (currentQuestionStartTime (lobbyState s1))) (players s1)"
    then obtain q :: questionObj where
      "players (fst (useScoring_run (s1, h)))
        = updateAll (scorePlayer q (currentQuestionStartTime (lobbyState s1))) (players s1)"
      by blast
    then show ?thesis
      by (simp add: r p updateAll_updateAll list_all2_updateAll_prop scorePlayer_def)
  qed
qed

lemma handleNextQuestion_scores:
  assumes "currentQuestionIndex (lobbyState s) + 1 < int (length (questions (lobbyState s)))"
  shows "map (\<lambda>(u, p). (u, score p)) (players (fst (handleNextQuestion (s, h) now done)))
           = map (\<lambda>(u, p). (u, score p))
               (players (fst (useScoring_run
                  (s\<lparr>lobbyState := (lobbyState s)\<lparr>
                        currentQuestionIndex := currentQuestionIndex (lobbyState s) + 1,
                        currentQuestionStartTime := Some now\<rparr>\<rparr>, h))))"
  by (simp add: handleNextQuestion_more [OF assms] Let_def updateAll_def case_prod_beta)

lemma handleNextQuestion_marker:
  assumes "currentQuestionIndex (lobbyState s) + 1 < int (length (questions (lobbyState s)))"
    and "0 \<le> currentQuestionIndex (lobbyState s) + 1" "showAnswers h"
  shows "lastRunQuestionId (snd (handleNextQuestion (s, h) now done))
           = map_option qid (currentQuestion (lobbyState (fst (handleNextQuestion (s, h) now done))))"
  using assms
  by (simp add: handleNextQuestion_more Let_def lobbyState_useScoring_run revealEffect_def
      useScoring_run_def currentQuestion_def)

lemma exSession2_next_enabled:
  "nextQuestion (exSession2, exScored) ''h'' 140000 140800
     = Inr (handleNextQuestion (exSession2, exScored) 140000 140800)"
  by (simp add: nextQuestion_def App_screen_def currentQuestion_def exSession2_def exGame_def
      exScored_def)

lemma exSession2_next_timer:
  "currentQuestionStartTime
     (lobbyState (fst (handleNextQuestion (exSession2, exScored) 140000 140800))) = Some 140000
   \<and> timer (snd (handleNextQuestion (exSession2, exScored) 140000 140800)) = Some 170800"
  by (simp add: handleNextQuestion_game handleNextQuestion_more Let_def lobbyState_useScoring_run
      revealEffect_timer exSession2_def exGame_def)

text \<open>
  Claim C8 says that advancing leaves every player's cumulative score unchanged. At this
  input the code does otherwise: after the first question is revealed and scored, Bob
  has 0 points and his answer to it, \<open>Oslo\<close>, is the correct answer of the second
  question. The host clicks Next at 140000. The index becomes 1, the start timestamp
  140000 and Bob's answer fields \<open>null\<close>, but Bob's score becomes 500: the write of the
  new index makes the scoring effect run on the second question while the answers to the
  first are still stored (a response time below 0 scores \<open>MIN_SCORE\<close>), and it stores
  the id of the second question as \<open>lastRunQuestionId\<close>.
\<close>

theorem C8_advance_scores_stale_answer:
  "map_option score (map_of (players exSession2) ''b'') = Some 0
   \<and> map_option score
        (map_of (players (fst (handleNextQuestion (exSession2, exScored) 140000 140800))) ''b'')
       = Some 500
   \<and> map_option lastAnswer
        (map_of (players (fst (handleNextQuestion (exSession2, exScored) 140000 140800))) ''b'')
       = Some None
   \<and> currentQuestionIndex
        (lobbyState (fst (handleNextQuestion (exSession2, exScored) 140000 140800))) = 1
   \<and> lastRunQuestionId (snd (handleNextQuestion (exSession2, exScored) 140000 140800))
       = Some (NumId 1)"
  by (simp add: handleNextQuestion_def useScoring_run_def revealEffect_def currentQuestion_def
      updateAll_def scorePlayer_def increase_def calculateScore_def MIN_SCORE_def Let_def
      exSession2_def exGame_def exQuestion_def exQuestion2_def exScored_def exHost_def exAnn_def
      exBob_def)

section \<open>Properties of joining a game\<close>

lemma map_of_setDoc: "map_of (setDoc k v ds) = (map_of ds)(k \<mapsto> v)"
  by (induction ds) (auto simp: fun_eq_iff)

lemma map_fst_setDoc_present:
  "k \<in> fst ` set ds \<Longrightarrow> map fst (setDoc k v ds) = map fst ds"
  by (induction ds) force+

lemma setDoc_absent: "k \<notin> fst ` set ds \<Longrightarrow> setDoc k v ds = ds @ [(k, v)]"
  by (induction ds) auto

lemma distinct_setDoc: "distinct (map fst ds) \<Longrightarrow> distinct (map fst (setDoc k v ds))"
proof (cases "k \<in> fst ` set ds")
  case True
  assume "distinct (map fst ds)"
  then show ?thesis using True by (simp add: map_fst_setDoc_present)
next
  case False
  assume "distinct (map fst ds)"
  then show ?thesis using False by (simp add: setDoc_absent)
qed

lemma handleJoinGame_Inr:
  assumes "handleJoinGame st (Some uid) nm code now = Inr st'"
  shows "\<exists>g. games st (toUpperCase code) = Some g \<and> (status g = LOBBY \<or> status g = UPLOAD)
           \<and> st' = st\<lparr>playerDocs := (playerDocs st)(toUpperCase code :=
                setDoc uid \<lparr>name = nm, score = 0, isHost = False, lastAnswer = None,
                            answerTimestamp = None, timestamp = now\<rparr>
                  (playerDocs st (toUpperCase code)))\<rparr>"
  using assms
  by (auto simp: handleJoinGame_def Let_def split: option.splits if_splits)

lemma handleJoinGame_refused_iff:
  assumes "uid \<noteq> []" "nm \<noteq> []"
  shows "isl (handleJoinGame st (Some uid) nm code now) \<longleftrightarrow>
     \<not> (\<exists>g. games st (toUpperCase code) = Some g \<and> (status g = LOBBY \<or> status g = UPLOAD))"
  using assms
  by (auto simp: handleJoinGame_def Let_def split: option.splits)

lemma handleJoinGame_in_progress:
  assumes "uid \<noteq> []" "nm \<noteq> []" "games st (toUpperCase code) = Some g"
    and "status g \<noteq> LOBBY" "status g \<noteq> UPLOAD"
  shows "handleJoinGame st (Some uid) nm code now = Inl GameInProgress"
  using assms by (simp add: handleJoinGame_def)

lemma toUpperCase_ab42: "toUpperCase ''ab42'' = ''AB42''"
  by code_simp

text \<open>
  Claim C6, as stated, fails: the player with identity \<open>a\<close>, stored name \<open>Ann\<close>,
  joins the same game again under the screen name \<open>Zed\<close>; the join succeeds and the
  stored name becomes \<open>Zed\<close>, so the existing record is not returned unchanged.
\<close>

theorem C6_counterexample:
  "map_of (playerDocs exStore ''AB42'') ''a'' = Some exAnnLobby
   \<and> name exAnnLobby = ''Ann''
   \<and> \<not> isl (handleJoinGame exStore (Some ''a'') ''Zed'' ''ab42'' 9000)
   \<and> map_option name
        (map_of (playerDocs (projr (handleJoinGame exStore (Some ''a'') ''Zed'' ''ab42'' 9000)) ''AB42'')
           ''a'') = Some ''Zed''"
  by (simp add: handleJoinGame_def toUpperCase_ab42 Let_def exStore_def exLobbyGame_def
      exAnnLobby_def)

text \<open>
  Claim C6, amended. For a signed-in user with a screen name, the join is refused, and
  nothing is written, exactly when no game with the upper-cased code exists or its status
  is neither \<open>LOBBY\<close> nor \<open>UPLOAD\<close>; for an existing game in another status the
  refusal is \<open>GameInProgress\<close>. A successful join writes a fresh record for the
  identity (the supplied name, score 0, host flag false, no answer), replacing the record
  the identity had, if any, without adding a second one; the game documents, the other
  players' records and the other games' players are unchanged.
\<close>

theorem C6_join_replaces_record:
  "uid \<noteq> [] \<Longrightarrow> nm \<noteq> [] \<Longrightarrow>
     (isl (handleJoinGame st (Some uid) nm code now) \<longleftrightarrow>
        \<not> (\<exists>g. games st (toUpperCase code) = Some g \<and> (status g = LOBBY \<or> status g = UPLOAD)))
     \<and> (games st (toUpperCase code) = Some g \<and> status g \<noteq> LOBBY \<and> status g \<noteq> UPLOAD \<longrightarrow>
          handleJoinGame st (Some uid) nm code now = Inl GameInProgress)
     \<and> (handleJoinGame st (Some uid) nm code now = Inr st' \<longrightarrow>
          games st' = games st
          \<and> map_of (playerDocs st' (toUpperCase code)) uid
              = Some \<lparr>name = nm, score = 0, isHost = False, lastAnswer = None,
                      answerTimestamp = None, timestamp = now\<rparr>
          \<and> (\<forall>u. u \<noteq> uid \<longrightarrow> map_of (playerDocs st' (toUpperCase code)) u
                                 = map_of (playerDocs st (toUpperCase code)) u)
          \<and> (\<forall>c. c \<noteq> toUpperCase code \<longrightarrow> playerDocs st' c = playerDocs st c)
          \<and> (uid \<in> fst ` set (playerDocs st (toUpperCase code)) \<longrightarrow>
                map fst (playerDocs st' (toUpperCase code))
                  = map fst (playerDocs st (toUpperCase code))))"
proof (intro conjI impI)
  assume "uid \<noteq> []" "nm \<noteq> []"
  then show "isl (handleJoinGame st (Some uid) nm code now) \<longleftrightarrow>
        \<not> (\<exists>g. games st (toUpperCase code) = Some g \<and> (status g = LOBBY \<or> status g = UPLOAD))"
    by (rule handleJoinGame_refused_iff)
next
  assume "uid \<noteq> []" "nm \<noteq> []"
    and "games st (toUpperCase code) = Some g \<and> status g \<noteq> LOBBY \<and> status g \<noteq> UPLOAD"
  then show "handleJoinGame st (Some uid) nm code now = Inl GameInProgress"
    by (simp add: handleJoinGame_in_progress)
next
  assume r: "handleJoinGame st (Some uid) nm code now = Inr st'"
  from handleJoinGame_Inr [OF r] have eq:
    "st' = st\<lparr>playerDocs := (playerDocs st)(toUpperCase code :=
                setDoc uid \<lparr>name = nm, score = 0, isHost = False, lastAnswer = None,
                            answerTimestamp = None, timestamp = now\<rparr>
                  (playerDocs st (toUpperCase code)))\<rparr>" by blast
  show "games st' = games st" by (simp add: eq)
  show "map_of (playerDocs st' (toUpperCase code)) uid
      = Some \<lparr>name = nm, score = 0, isHost = False, lastAnswer = None,
              answerTimestamp = None, timestamp = now\<rparr>"
    by (simp add: eq map_of_setDoc)
  show "\<forall>u. u \<noteq> uid \<longrightarrow> map_of (playerDocs st' (toUpperCase code)) u
      = map_of (playerDocs st (toUpperCase code)) u"
    by (simp add: eq map_of_setDoc)
  show "\<forall>c. c \<noteq> toUpperCase code \<longrightarrow> playerDocs st' c = playerDocs st c"
    by (simp add: eq)
  show "map fst (playerDocs st' (toUpperCase code)) = map fst (playerDocs st (toUpperCase code))"
    if "uid \<in> fst ` set (playerDocs st (toUpperCase code))"
    using that by (simp add: eq map_fst_setDoc_present)
qed

theorem C6_join_replaces_record_witness:
  "\<not> isl (handleJoinGame exStore (Some ''a'') ''Zed'' ''ab42'' 9000)
   \<and> map_of (playerDocs (projr (handleJoinGame exStore (Some ''a'') ''Zed'' ''ab42'' 9000))
        (toUpperCase ''ab42'')) ''a''
       = Some \<lparr>name = ''Zed'', score = 0, isHost = False, lastAnswer = None,
               answerTimestamp = None, timestamp = 9000\<rparr>
   \<and> handleJoinGame (exStore\<lparr>games := [''AB42'' \<mapsto> exGame]\<rparr>) (Some ''c'') ''Cy'' ''ab42'' 9000
       = Inl GameInProgress"
proof -
  have g: "games exStore (toUpperCase ''ab42'') = Some exLobbyGame"
    "status exLobbyGame = LOBBY \<or> status exLobbyGame = UPLOAD"
    by (simp_all add: toUpperCase_ab42 exStore_def exLobbyGame_def)
  have n: "''a'' \<noteq> []" "''Zed'' \<noteq> []" "''c'' \<noteq> []" "''Cy'' \<noteq> []" by simp_all
  have a: "\<not> isl (handleJoinGame exStore (Some ''a'') ''Zed'' ''ab42'' 9000)"
    using C6_join_replaces_record [OF n(1,2), of exStore "''ab42''" 9000] g by blast
  then have r: "handleJoinGame exStore (Some ''a'') ''Zed'' ''ab42'' 9000
      = Inr (projr (handleJoinGame exStore (Some ''a'') ''Zed'' ''ab42'' 9000))"
    by (cases "handleJoinGame exStore (Some ''a'') ''Zed'' ''ab42'' 9000") simp_all
  have p: "games (exStore\<lparr>games := [''AB42'' \<mapsto> exGame]\<rparr>) (toUpperCase ''ab42'') = Some exGame
      \<and> status exGame \<noteq> LOBBY \<and> status exGame \<noteq> UPLOAD"
    by (simp add: toUpperCase_ab42 exGame_def)
  show ?thesis
    using a C6_join_replaces_record [OF n(1,2), of exStore "''ab42''" 9000 _
        "projr (handleJoinGame exStore (Some ''a'') ''Zed'' ''ab42'' 9000)"] r
      C6_join_replaces_record [OF n(3,4), of "exStore\<lparr>games := [''AB42'' \<mapsto> exGame]\<rparr>"
        "''ab42''" 9000 exGame] p
    by blast
qed

section \<open>Properties of room codes and game creation\<close>

lemma digit36_upper:
  assumes "d < 36"
  shows "isUpperAlnum (toUpperCase_char (digit36 d))"
proof (cases "d < 10")
  case True
  then have "(48 + d) mod 256 = 48 + d" by simp
  with True show ?thesis
    by (simp add: digit36_def toUpperCase_char_def isUpperAlnum_def)
next
  case False
  with assms have "(87 + d) mod 256 = 87 + d" "(55 + d) mod 256 = 55 + d" by simp_all
  moreover have "87 + d - 32 = 55 + d" by simp
  ultimately show ?thesis using False assms
    by (simp add: digit36_def toUpperCase_char_def isUpperAlnum_def)
qed

lemma generateGameCode_digits:
  "generateGameCode random = map (\<lambda>d. toUpperCase_char (digit36 d)) (take 4 random)"
  by (cases random)
    (simp_all add: generateGameCode_def toUpperCase_def substring_def toString36_def take_map)

lemma generateGameCode_length: "length (generateGameCode random) = min 4 (length random)"
  by (simp add: generateGameCode_digits)

lemma generateGameCode_alnum:
  assumes "\<forall>d \<in> set random. d < 36"
  shows "\<forall>c \<in> set (generateGameCode random). isUpperAlnum c"
proof
  fix c assume "c \<in> set (generateGameCode random)"
  then obtain d where "d \<in> set (take 4 random)" "c = toUpperCase_char (digit36 d)"
    by (auto simp: generateGameCode_digits)
  moreover from this have "d < 36" using assms by (auto dest: in_set_takeD)
  ultimately show "isUpperAlnum c" by (simp add: digit36_upper)
qed

lemma generateGameCode_half: "generateGameCode [18] = ''I''"
  by code_simp

lemma handleCreateGame_ready:
  assumes "uid \<noteq> []" "nm \<noteq> []"
  shows "handleCreateGame st (Some uid) nm random now =
     Inr (generateGameCode random,
          st\<lparr>games := (games st)(generateGameCode random \<mapsto>
                 \<lparr>gameCode = generateGameCode random, hostUserId = uid, status = LOBBY,
                  questions = [], currentQuestionIndex = - 1, currentQuestionStartTime = None\<rparr>),
             playerDocs := (playerDocs st)(generateGameCode random :=
                 setDoc uid \<lparr>name = nm, score = 0, isHost = True, lastAnswer = None,
                             answerTimestamp = None, timestamp = now\<rparr>
                   (playerDocs st (generateGameCode random)))\<rparr>)"
  using assms by (simp add: handleCreateGame_def Let_def)

lemma generateGameCode_ab42: "generateGameCode [10, 11, 4, 2, 30, 7] = ''AB42''"
  by code_simp

text \<open>
  Claim C9, as stated, fails: a game with code \<open>AB42\<close> hosted by \<open>h\<close> is live and
  the random draw of another user's game creation yields \<open>AB42\<close> again; the creation
  succeeds with that same code (no regeneration, no error) and the stored game document
  now belongs to the new host.
\<close>

theorem C9_counterexample:
  "map_option hostUserId (games exStore ''AB42'') = Some ''h''
   \<and> \<not> isl (handleCreateGame exStore (Some ''z'') ''Zed'' [10, 11, 4, 2, 30, 7] 9000)
   \<and> fst (projr (handleCreateGame exStore (Some ''z'') ''Zed'' [10, 11, 4, 2, 30, 7] 9000)) = ''AB42''
   \<and> map_option hostUserId
        (games (snd (projr (handleCreateGame exStore (Some ''z'') ''Zed'' [10, 11, 4, 2, 30, 7] 9000)))
           ''AB42'') = Some ''z''"
  by (simp add: handleCreateGame_ready generateGameCode_ab42 exStore_def exLobbyGame_def)

text \<open>
  Claim C9, amended. Whenever the base-36 rendering of the random number has at least 4
  digits after the point, the room code is exactly 4 characters; every character of a
  room code is a digit or an upper-case letter. Game creation by a signed-in user with a
  screen name generates the code once and never fails: it returns that code and stores
  the new game document under it, replacing any game document stored under the same
  code, and seats the caller as host. The store holds at most one game per code.
\<close>

theorem C9_room_code:
  "\<forall>d \<in> set random. d < 36 \<Longrightarrow>
     (4 \<le> length random \<longrightarrow> length (generateGameCode random) = 4)
     \<and> (\<forall>c \<in> set (generateGameCode random). isUpperAlnum c)
     \<and> (uid \<noteq> [] \<and> nm \<noteq> [] \<longrightarrow>
          \<not> isl (handleCreateGame st (Some uid) nm random now)
          \<and> fst (projr (handleCreateGame st (Some uid) nm random now)) = generateGameCode random
          \<and> games (snd (projr (handleCreateGame st (Some uid) nm random now)))
              = (games st)(generateGameCode random \<mapsto>
                  \<lparr>gameCode = generateGameCode random, hostUserId = uid, status = LOBBY,
                   questions = [], currentQuestionIndex = - 1, currentQuestionStartTime = None\<rparr>)
          \<and> map_of (playerDocs (snd (projr (handleCreateGame st (Some uid) nm random now)))
                (generateGameCode random)) uid
              = Some \<lparr>name = nm, score = 0, isHost = True, lastAnswer = None,
                      answerTimestamp = None, timestamp = now\<rparr>)"
  using generateGameCode_alnum [of random]
  by (simp add: generateGameCode_length handleCreateGame_ready map_of_setDoc)

theorem C9_room_code_witness:
  "generateGameCode [10, 11, 4, 2, 30, 7] = ''AB42''
   \<and> length (generateGameCode [10, 11, 4, 2, 30, 7]) = 4
   \<and> list_all isUpperAlnum (generateGameCode [10, 11, 4, 2, 30, 7])
   \<and> \<not> isl (handleCreateGame exStore (Some ''z'') ''Zed'' [10, 11, 4, 2, 30, 7] 9000)"
proof -
  have d: "\<forall>d \<in> set [10, 11, 4, 2, 30, 7 :: nat]. d < 36" by simp
  have l: "4 \<le> length [10, 11, 4, 2, 30, 7 :: nat]" by simp
  have n: "''z'' \<noteq> [] \<and> ''Zed'' \<noteq> []" by simp
  show ?thesis
    unfolding list_all_iff
    using C9_room_code [OF d, of "''z''" "''Zed''" exStore 9000] l n generateGameCode_ab42
    by blast
qed

section \<open>Properties of the CSV parser\<close>

lemma length_swap: "length (swap i j xs) = length xs"
  by (simp add: swap_def)

lemma mset_swap_list: "i < length xs \<Longrightarrow> j < length xs \<Longrightarrow> mset (swap i j xs) = mset xs"
  unfolding swap_def by (rule mset_swap)

lemma mset_shuffleLoop: "i < length copy \<Longrightarrow> mset (shuffleLoop rnd i copy) = mset copy"
proof (induction i arbitrary: copy)
  case 0
  then show ?case by simp
next
  case (Suc i)
  have j: "rnd (Suc i) mod (Suc i + 1) < length copy"
  proof -
    have "rnd (Suc i) mod (Suc i + 1) < Suc i + 1" by (rule mod_less_divisor) simp
    with Suc.prems show ?thesis by linarith
  qed
  have "mset (shuffleLoop rnd i (swap (Suc i) (rnd (Suc i) mod (Suc i + 1)) copy))
      = mset (swap (Suc i) (rnd (Suc i) mod (Suc i + 1)) copy)"
    using Suc.prems by (intro Suc.IH) (simp add: length_swap)
  also have "\<dots> = mset copy"
    using Suc.prems j by (rule mset_swap_list)
  finally show ?case by simp
qed

lemma mset_shuffleArray: "mset (shuffleArray rnd array) = mset array"
proof (cases array)
  case Nil
  then show ?thesis by (simp add: shuffleArray_def)
next
  case (Cons x xs)
  then have "length array - 1 < length array" by simp
  then show ?thesis unfolding shuffleArray_def by (rule mset_shuffleLoop)
qed

lemma length_shuffleArray: "length (shuffleArray rnd array) = length array"
  using mset_shuffleArray [of rnd array] by (metis size_mset)

lemma set_shuffleArray: "set (shuffleArray rnd array) = set array"
  using mset_shuffleArray [of rnd array] by (metis set_mset_mset)

lemma parseLine_Some:
  assumes "parseLine rnd index line = Some q"
  shows "2 \<le> length (lineParts line) \<and> qid q = NumId index
         \<and> question q = lineParts line ! 0 \<and> correctAnswer q = lineParts line ! 1
         \<and> options q = shuffleArray rnd (take 5 (filter (\<lambda>opt. opt \<noteq> []) (tl (lineParts line))))
         \<and> 2 \<le> length (take 5 (filter (\<lambda>opt. opt \<noteq> []) (tl (lineParts line))))"
proof (cases "lineParts line")
  case Nil
  with assms show ?thesis by (simp add: parseLine_def)
next
  case c1: (Cons qt rest)
  show ?thesis
  proof (cases rest)
    case Nil
    with c1 assms show ?thesis by (simp add: parseLine_def)
  next
    case (Cons ca ds)
    with c1 assms show ?thesis
      by (auto simp: parseLine_def Let_def Suc_le_eq split: if_splits)
  qed
qed

lemma parseCSV_member:
  assumes "q \<in> set (parseCSV rnd csvText)"
  shows "\<exists>index line. index < length (csvLines csvText) \<and> line = csvLines csvText ! index
           \<and> parseLine (rnd index) index line = Some q"
proof -
  from assms obtain index line where
    m: "(index, line) \<in> set (enumerate 0 (csvLines csvText))" and
    p: "parseLine (rnd index) index line = Some q"
    by (auto simp: parseCSV_def map_filter_def split: if_splits)
  from m have "index < length (csvLines csvText)" "csvLines csvText ! index = line"
    by (simp_all add: in_set_enumerate_eq)
  with p show ?thesis by blast
qed

lemma hd_in_take_filter:
  assumes "x \<noteq> []"
  shows "x \<in> set (take 5 (filter (\<lambda>opt. opt \<noteq> []) (x # xs)))"
  using assms by simp

text \<open>
  Claim C10, as stated, fails: the line \<open>Q,A,A,B\<close> is retained, and its correct
  answer \<open>A\<close> occurs twice among the options, since repeated fields are kept.
\<close>

theorem C10_counterexample:
  "length (csvLines ''Q,A,A,B'') = 1
   \<and> length (parseCSV exRnd ''Q,A,A,B'') = 1
   \<and> correctAnswer (parseCSV exRnd ''Q,A,A,B'' ! 0) = ''A''
   \<and> options (parseCSV exRnd ''Q,A,A,B'' ! 0) = [''A'', ''B'', ''A'']
   \<and> count_list (options (parseCSV exRnd ''Q,A,A,B'' ! 0))
        (correctAnswer (parseCSV exRnd ''Q,A,A,B'' ! 0)) = 2"
  by code_simp

text \<open>
  A line with an empty correct-answer field and two distractors is retained as well; its
  correct answer is then no option at all.
\<close>

lemma parseCSV_empty_correct_answer:
  "parseCSV exRnd ''Q,,A,B''
     = [\<lparr>qid = NumId 0, question = ''Q'', correctAnswer = [], options = [''B'', ''A'']\<rparr>]"
  by code_simp

text \<open>
  Claim C10, amended. Every question produced by \<open>parseCSV\<close> comes from a non-blank
  line with at least 2 fields; its correct answer is the line's second field; its options
  are a permutation of the first at most 5 non-empty fields after the question field,
  repetitions included, so there are between 2 and 5 options; and when the correct-answer
  field is not empty, the correct answer is among the options (at least once).
\<close>

theorem C10_options_permutation:
  "q \<in> set (parseCSV rnd csvText) \<Longrightarrow>
     \<exists>line \<in> set (csvLines csvText).
        2 \<le> length (lineParts line)
        \<and> correctAnswer q = lineParts line ! 1
        \<and> mset (options q) = mset (take 5 (filter (\<lambda>opt. opt \<noteq> []) (tl (lineParts line))))
        \<and> 2 \<le> length (options q) \<and> length (options q) \<le> 5
        \<and> (correctAnswer q \<noteq> [] \<longrightarrow> correctAnswer q \<in> set (options q))"
proof -
  assume "q \<in> set (parseCSV rnd csvText)"
  then obtain index line where
    i: "index < length (csvLines csvText)" "line = csvLines csvText ! index" and
    p: "parseLine (rnd index) index line = Some q"
    using parseCSV_member by blast
  define fields where "fields = take 5 (filter (\<lambda>opt. opt \<noteq> []) (tl (lineParts line)))"
  from parseLine_Some [OF p] have
    l: "2 \<le> length (lineParts line)" and
    c: "correctAnswer q = lineParts line ! 1" and
    o: "options q = shuffleArray (rnd index) fields" and
    n: "2 \<le> length fields"
    by (simp_all add: fields_def)
  have m: "mset (options q) = mset fields" by (simp add: o mset_shuffleArray)
  have len: "length (options q) = length fields" by (simp add: o length_shuffleArray)
  have five: "length fields \<le> 5" by (simp add: fields_def)
  have mem: "correctAnswer q \<in> set (options q)" if ne: "correctAnswer q \<noteq> []"
  proof -
    obtain qt ca ds where parts: "lineParts line = qt # ca # ds"
      using l by (cases "lineParts line"; cases "tl (lineParts line)") auto
    then have "correctAnswer q = ca" using c by simp
    then have "correctAnswer q \<in> set fields"
      using ne parts by (simp add: fields_def)
    then show ?thesis by (simp add: o set_shuffleArray)
  qed
  have "line \<in> set (csvLines csvText)" using i by simp
  then show ?thesis
    using l c m n len five mem unfolding fields_def by auto
qed

theorem C10_options_permutation_witness:
  "\<exists>line \<in> set (csvLines ''Q,A,A,B'').
      2 \<le> length (lineParts line)
      \<and> mset [''A'', ''B'', ''A''] = mset (take 5 (filter (\<lambda>opt. opt \<noteq> []) (tl (lineParts line))))
      \<and> ''A'' \<in> set [''A'', ''B'', ''A'']"
proof -
  have p: "parseCSV exRnd ''Q,A,A,B''
      = [\<lparr>qid = NumId 0, question = ''Q'', correctAnswer = ''A'', options = [''A'', ''B'', ''A'']\<rparr>]"
    by code_simp
  then have "\<lparr>qid = NumId 0, question = ''Q'', correctAnswer = ''A'', options = [''A'', ''B'', ''A'']\<rparr>
      \<in> set (parseCSV exRnd ''Q,A,A,B'')" by simp
  from C10_options_permutation [OF this] show ?thesis by auto
qed

section \<open>Stored answers are never the empty string\<close>

text \<open>
  The options produced by the parser are non-empty, and starting the game, advancing,
  scoring and joining keep \<open>answersNonEmpty\<close>.
\<close>

lemma parseCSV_options_nonempty:
  assumes "q \<in> set (parseCSV rnd csvText)"
  shows "list_all (\<lambda>opt. opt \<noteq> []) (options q)"
proof -
  from parseCSV_member [OF assms] obtain index line where
    "parseLine (rnd index) index line = Some q" by blast
  from parseLine_Some [OF this] have
    "set (options q) = set (take 5 (filter (\<lambda>opt. opt \<noteq> []) (tl (lineParts line))))"
    by (simp add: set_shuffleArray)
  then show ?thesis
    by (auto simp: list_all_iff dest: in_set_takeD)
qed

lemma optionsNonEmpty_parseCSV:
  "questions g = parseCSV rnd csvText \<Longrightarrow> optionsNonEmpty g"
  by (simp add: optionsNonEmpty_def list_all_iff[of _ "parseCSV rnd csvText"]
      parseCSV_options_nonempty)

lemma answersNonEmpty_updateAll:
  assumes "\<And>uid p. (uid, p) \<in> set ps \<Longrightarrow> lastAnswer (f p) \<noteq> Some []"
  shows "answersNonEmpty (updateAll f ps)"
  using assms by (induction ps) (auto simp: answersNonEmpty_def updateAll_def)

lemma answersNonEmpty_startGame:
  "startGame s uid now = Inr s' \<Longrightarrow> answersNonEmpty (players s')"
  by (auto simp: startGame_def handleStartGame_def split: if_splits
      intro!: answersNonEmpty_updateAll)

lemma answersNonEmpty_handleNextQuestion:
  assumes "answersNonEmpty (players s)"
  shows "answersNonEmpty (players (fst (handleNextQuestion (s, h) now done)))"
  using assms
  by (auto simp: handleNextQuestion_def Let_def intro!: answersNonEmpty_updateAll)

lemma lastAnswer_scorePlayer: "lastAnswer (scorePlayer q t0 p) = lastAnswer p"
  by (simp add: scorePlayer_def)

lemma answersNonEmpty_useScoring_run:
  assumes "answersNonEmpty (players s)"
  shows "answersNonEmpty (players (fst (useScoring_run (s, h))))"
proof -
  have "answersNonEmpty (updateAll (scorePlayer q t0) (players s))" for q t0
  proof (rule answersNonEmpty_updateAll)
    fix uid p assume "(uid, p) \<in> set (players s)"
    then have "lastAnswer p \<noteq> Some []"
      using assms by (auto simp: answersNonEmpty_def list_all_iff)
    then show "lastAnswer (scorePlayer q t0 p) \<noteq> Some []"
      by (simp add: lastAnswer_scorePlayer)
  qed
  then show ?thesis using assms
    by (auto simp: useScoring_run_def Let_def split: option.splits)
qed

lemma answersNonEmpty_setDoc:
  "answersNonEmpty ps \<Longrightarrow> lastAnswer p \<noteq> Some [] \<Longrightarrow> answersNonEmpty (setDoc uid p ps)"
  by (induction ps) (auto simp: answersNonEmpty_def)

end
